theory Spec2Isabelle
  imports Complex_Main
begin

section \<open>Concept records and the concepts collection\<close>

text \<open>
  The service of \<^verbatim>\<open>app/routes/concepts.py\<close> keeps concept documents in the
  collection \<^verbatim>\<open>db.concepts\<close> of a document database and answers five routes.
  The handlers are embedded as functions from the database (and the request) to the
  value returned or the exception raised, the database afterwards, and the sequence of
  calls made to the database and to the embedding provider.

  The database driver, the identifier class \<^verbatim>\<open>ObjectId\<close> and the request models
  are not code of these handlers. The driver's calls are modelled on one collection held
  in natural order; a failing connection is outside the model. The embedding provider
  (\<^verbatim>\<open>tensor_to_list(calculate_normalized_embeddings(text))\<close>) is a parameter
  \<open>Embed\<close> of the update handler.
\<close>

subsection \<open>Identifiers\<close>

text \<open>An object id is its sequence of bytes, each a number below 256.\<close>

type_synonym object_id = "nat list"

text \<open>
  The C-level \<^verbatim>\<open>Py_ISSPACE\<close>: tab, line feed, vertical tab, form feed,
  carriage return and space.
\<close>

definition isspace :: "char \<Rightarrow> bool" where
  "isspace c = (let n = (of_char c :: nat) in (9 \<le> n \<and> n \<le> 13) \<or> n = 32)"

text \<open>The value of a hexadecimal digit, upper or lower case.\<close>

definition hex_digit :: "char \<Rightarrow> nat option" where
  "hex_digit c =
     (let n = (of_char c :: nat) in
      if 48 \<le> n \<and> n \<le> 57 then Some (n - 48)
      else if 97 \<le> n \<and> n \<le> 102 then Some (n - 87)
      else if 65 \<le> n \<and> n \<le> 70 then Some (n - 55)
      else None)"

text \<open>
  \<^verbatim>\<open>bytes.fromhex\<close>: two hexadecimal digits for each byte, white space between
  bytes skipped; \<open>None\<close> stands for its \<^verbatim>\<open>ValueError\<close>.
\<close>

fun fromhex :: "string \<Rightarrow> nat list option" where
  "fromhex [] = Some []"
| "fromhex [c] = (if isspace c then Some [] else None)"
| "fromhex (c # d # cs) =
     (if isspace c then fromhex (d # cs)
      else case (hex_digit c, hex_digit d) of
             (Some hi, Some lo) \<Rightarrow> map_option (\<lambda>bs. (16 * hi + lo) # bs) (fromhex cs)
           | _ \<Rightarrow> None)"

text \<open>A piece of a message: literal text, or \<^verbatim>\<open>repr\<close> of a string (as \<^verbatim>\<open>{id=}\<close>
  renders its value), which is kept unevaluated.\<close>

datatype piece = Lit string | Repr string

text \<open>
  What a handler raises: an \<^verbatim>\<open>HTTPException\<close> with its status code and detail,
  the library's \<^verbatim>\<open>InvalidId\<close> when nothing catches it, or the store's refusal of a
  second document with the same \<^verbatim>\<open>_id\<close>.
\<close>

datatype error =
    HTTPException nat "piece list"
  | InvalidId string
  | DuplicateKeyError

text \<open>The status of the response: the framework answers an exception that is not an
  \<^verbatim>\<open>HTTPException\<close> with 500.\<close>

fun response_status :: "error \<Rightarrow> nat" where
  "response_status (HTTPException code _) = code"
| "response_status (InvalidId _) = 500"
| "response_status DuplicateKeyError = 500"

text \<open>
  \<^verbatim>\<open>ObjectId(id)\<close> on a string: 24 characters that \<^verbatim>\<open>bytes.fromhex\<close> accepts,
  \<^verbatim>\<open>InvalidId\<close> otherwise.
\<close>

definition ObjectId :: "string \<Rightarrow> error + object_id" where
  "ObjectId s =
     (if length s = 24 then
        (case fromhex s of Some bs \<Rightarrow> Inr bs | None \<Rightarrow> Inl (InvalidId s))
      else Inl (InvalidId s))"

subsection \<open>Documents and request models\<close>

type_synonym embedding = "real list"

text \<open>
  Modelled from the spec: the persisted record shape (the models of
  \<^verbatim>\<open>app/models/models.py\<close> are not part of the sources). A stored concept has the
  identifier \<^verbatim>\<open>_id\<close> (here \<open>oid\<close>), the texts \<open>name\<close> and \<open>usage\<close>, and
  \<open>normalized_embedding\<close>, which may be missing (\<open>None\<close>).
\<close>

record document =
  oid :: object_id
  name :: string
  usage :: string
  normalized_embedding :: "embedding option"

text \<open>
  Modelled from the spec: \<^verbatim>\<open>ConceptModel\<close>, the body of a creation and the shape of
  every response: an optional identifier, name, usage and an optional embedding.
\<close>

record ConceptModel =
  cm_id :: "object_id option"
  cm_name :: string
  cm_usage :: string
  cm_normalized_embedding :: "embedding option"

text \<open>
  Modelled from the spec: \<^verbatim>\<open>UpdateConceptModel\<close>, the partial body of an update;
  a field that is missing or null is \<open>None\<close>.
\<close>

record UpdateConceptModel =
  upd_name :: "string option"
  upd_usage :: "string option"

text \<open>
  The dictionary \<^verbatim>\<open>update_data_dict\<close> given to \<^verbatim>\<open>$set\<close>: each key is present
  (\<open>Some\<close>) or not.
\<close>

record changeset =
  set_name :: "string option"
  set_usage :: "string option"
  set_normalized_embedding :: "embedding option"

record db =
  concepts :: "document list"

text \<open>The calls a handler makes, in order.\<close>

datatype effect =
    Db_find_one object_id
  | Db_find
  | Db_insert_one object_id
  | Db_update_one object_id changeset
  | Db_delete_one object_id
  | Embedding_call string

fun is_write :: "effect \<Rightarrow> bool" where
  "is_write (Db_insert_one _) = True"
| "is_write (Db_update_one _ _) = True"
| "is_write (Db_delete_one _) = True"
| "is_write _ = False"

fun is_embedding :: "effect \<Rightarrow> bool" where
  "is_embedding (Embedding_call _) = True"
| "is_embedding _ = False"

subsection \<open>The driver's calls on the collection\<close>

text \<open>\<^verbatim>\<open>find_one({"_id": i})\<close>: the first document with that identifier.\<close>

definition find_one :: "document list \<Rightarrow> object_id \<Rightarrow> document option" where
  "find_one coll i = find (\<lambda>d. oid d = i) coll"

text \<open>\<^verbatim>\<open>insert_one\<close> of a document that has no \<^verbatim>\<open>_id\<close>: the driver gives it the
  identifier \<open>inserted_id\<close>, and the collection refuses an identifier it already holds.\<close>

definition insert_one ::
  "document list \<Rightarrow> object_id \<Rightarrow> string \<Rightarrow> string \<Rightarrow> embedding option
     \<Rightarrow> error + document list" where
  "insert_one coll inserted_id n u e =
     (if find_one coll inserted_id \<noteq> None then Inl DuplicateKeyError
      else Inr (coll @ [\<lparr>oid = inserted_id, name = n, usage = u, normalized_embedding = e\<rparr>]))"

text \<open>\<^verbatim>\<open>$set\<close>: the keys of the changeset replace the document's fields, the other
  fields stay.\<close>

definition apply_set :: "document \<Rightarrow> changeset \<Rightarrow> document" where
  "apply_set d cs =
     d\<lparr>name := (case set_name cs of Some n \<Rightarrow> n | None \<Rightarrow> name d),
       usage := (case set_usage cs of Some u \<Rightarrow> u | None \<Rightarrow> usage d),
       normalized_embedding :=
         (case set_normalized_embedding cs of Some e \<Rightarrow> Some e
          | None \<Rightarrow> normalized_embedding d)\<rparr>"

text \<open>\<^verbatim>\<open>update_one({"_id": i}, {"$set": cs})\<close>: the first matching document is updated.\<close>

fun update_one :: "document list \<Rightarrow> object_id \<Rightarrow> changeset \<Rightarrow> document list" where
  "update_one [] i cs = []"
| "update_one (d # ds) i cs =
     (if oid d = i then apply_set d cs # ds else d # update_one ds i cs)"

text \<open>\<^verbatim>\<open>delete_one({"_id": i})\<close>: the first matching document is removed; the second
  component is \<^verbatim>\<open>deleted_count\<close>.\<close>

fun delete_one :: "document list \<Rightarrow> object_id \<Rightarrow> document list \<times> nat" where
  "delete_one [] i = ([], 0)"
| "delete_one (d # ds) i =
     (if oid d = i then (ds, 1)
      else (case delete_one ds i of (ds', n) \<Rightarrow> (d # ds', n)))"

section \<open>The handlers\<close>

definition find_concept_by_id :: "db \<Rightarrow> string \<Rightarrow> (error + document) \<times> effect list" where
  "find_concept_by_id d id_str =
     (case ObjectId id_str of
        Inl _ \<Rightarrow>
          (Inl (HTTPException 400 [Lit (''Invalid concept ID format: '' @ id_str)]), [])
      | Inr object_id \<Rightarrow>
          (case find_one (concepts d) object_id of
             None \<Rightarrow>
               (Inl (HTTPException 404 [Lit (''Concept not found with id='' @ id_str)]),
                [Db_find_one object_id])
           | Some concept \<Rightarrow> (Inr concept, [Db_find_one object_id])))"

text \<open>\<^verbatim>\<open>concept.model_dump(by_alias=True, exclude=["id"])\<close> is the name, the usage and
  the embedding of the body; the identifier of the body is not read.\<close>

definition add_concept ::
  "db \<Rightarrow> object_id \<Rightarrow> ConceptModel \<Rightarrow> (error + document option) \<times> db \<times> effect list" where
  "add_concept d inserted_id concept =
     (case insert_one (concepts d) inserted_id
             (cm_name concept) (cm_usage concept) (cm_normalized_embedding concept) of
        Inl e \<Rightarrow> (Inl e, d, [Db_insert_one inserted_id])
      | Inr coll \<Rightarrow>
          (Inr (find_one coll inserted_id), d\<lparr>concepts := coll\<rparr>,
           [Db_insert_one inserted_id, Db_find_one inserted_id]))"

text \<open>\<^verbatim>\<open>ConceptModel(**concept)\<close> for a stored document.\<close>

definition ConceptModel_of :: "document \<Rightarrow> ConceptModel" where
  "ConceptModel_of c =
     \<lparr>cm_id = Some (oid c), cm_name = name c, cm_usage = usage c,
      cm_normalized_embedding = normalized_embedding c\<rparr>"

definition get_concepts :: "db \<Rightarrow> ConceptModel list \<times> effect list" where
  "get_concepts d = (map ConceptModel_of (take 1000 (concepts d)), [Db_find])"

definition get_concept_by_id :: "db \<Rightarrow> string \<Rightarrow> (error + document) \<times> effect list" where
  "get_concept_by_id d id_str =
     (case ObjectId id_str of
        Inl _ \<Rightarrow>
          (Inl (HTTPException 400 [Lit (''Invalid user ID format: '' @ id_str)]), [])
      | Inr object_id \<Rightarrow>
          (case find_one (concepts d) object_id of
             None \<Rightarrow>
               (Inl (HTTPException 404 [Lit ''Concept not found id='', Repr id_str]),
                [Db_find_one object_id])
           | Some concept \<Rightarrow> (Inr concept, [Db_find_one object_id])))"

text \<open>The dictionary comprehension over \<^verbatim>\<open>update_data.model_dump(by_alias=True)\<close>:
  the keys whose value is not \<^verbatim>\<open>None\<close>.\<close>

definition update_data_dict_of :: "UpdateConceptModel \<Rightarrow> changeset" where
  "update_data_dict_of update_data =
     \<lparr>set_name = upd_name update_data, set_usage = upd_usage update_data,
      set_normalized_embedding = None\<rparr>"

text \<open>The truth value of the dictionary: it has a key.\<close>

definition nonempty :: "changeset \<Rightarrow> bool" where
  "nonempty cs =
     (set_name cs \<noteq> None \<or> set_usage cs \<noteq> None \<or> set_normalized_embedding cs \<noteq> None)"

text \<open>\<^verbatim>\<open>f"{update_data_dict.get('name', concept['name'])}: {update_data_dict.get('usage', concept['usage'])}"\<close>\<close>

definition embed_string :: "changeset \<Rightarrow> document \<Rightarrow> string" where
  "embed_string cs concept =
     (case set_name cs of Some n \<Rightarrow> n | None \<Rightarrow> name concept) @ '': '' @
     (case set_usage cs of Some u \<Rightarrow> u | None \<Rightarrow> usage concept)"

definition update_concept ::
  "(string \<Rightarrow> embedding) \<Rightarrow> db \<Rightarrow> string \<Rightarrow> UpdateConceptModel
     \<Rightarrow> (error + document option) \<times> db \<times> effect list" where
  "update_concept Embed d id_str update_data =
     (case find_concept_by_id d id_str of
        (Inl e, t) \<Rightarrow> (Inl e, d, t)
      | (Inr concept, t) \<Rightarrow>
          (let update_data_dict = update_data_dict_of update_data;
               recalc = (set_name update_data_dict \<noteq> None \<or> set_usage update_data_dict \<noteq> None);
               update_data_dict' =
                 (if recalc then
                    update_data_dict\<lparr>set_normalized_embedding :=
                      Some (Embed (embed_string update_data_dict concept))\<rparr>
                  else update_data_dict);
               t' = (if recalc then t @ [Embedding_call (embed_string update_data_dict concept)]
                     else t)
           in if nonempty update_data_dict' then
                (let coll = update_one (concepts d) (oid concept) update_data_dict'
                 in (Inr (find_one coll (oid concept)), d\<lparr>concepts := coll\<rparr>,
                     t' @ [Db_update_one (oid concept) update_data_dict',
                           Db_find_one (oid concept)]))
              else (Inr (Some concept), d, t')))"

text \<open>The answer of a successful deletion: \<^verbatim>\<open>JSONResponse\<close> with its status and
  message.\<close>

datatype response = JSONResponse nat "piece list"

definition delete_concept :: "db \<Rightarrow> string \<Rightarrow> (error + response) \<times> db \<times> effect list" where
  "delete_concept d id_str =
     (case ObjectId id_str of
        Inl e \<Rightarrow> (Inl e, d, [])
      | Inr object_id \<Rightarrow>
          (case delete_one (concepts d) object_id of
             (coll, deleted_count) \<Rightarrow>
               (if deleted_count = 1 then
                  Inr (JSONResponse 200
                         [Lit ''Concept with id='', Repr id_str, Lit '' deleted.''])
                else
                  Inl (HTTPException 404
                         [Lit ''Concept with id='', Repr id_str, Lit '' not found.'']),
                d\<lparr>concepts := coll\<rparr>, [Db_delete_one object_id])))"

section \<open>Sample data\<close>

text \<open>One stored concept, its identifier as the client writes it, and an embedding
  provider, for the worked instances below.\<close>

abbreviation sample_id :: string where
  "sample_id \<equiv> ''65a1b2c3d4e5f60718293a4b''"

abbreviation sample_oid :: object_id where
  "sample_oid \<equiv> [101, 161, 178, 195, 212, 229, 246, 7, 24, 41, 58, 75]"

abbreviation sample_concept :: document where
  "sample_concept \<equiv>
     \<lparr>oid = sample_oid, name = ''Foo'', usage = ''bar'', normalized_embedding = None\<rparr>"

abbreviation sample_db :: db where
  "sample_db \<equiv> \<lparr>concepts = [sample_concept]\<rparr>"

abbreviation sample_Embed :: "string \<Rightarrow> embedding" where
  "sample_Embed \<equiv> map (real \<circ> of_char)"

section \<open>Facts about the collection's calls\<close>

lemma find_one_SomeD: "find_one coll i = Some c \<Longrightarrow> c \<in> set coll \<and> oid c = i"
  unfolding find_one_def by (auto simp: find_Some_iff)

lemma find_one_None_iff: "find_one coll i = None \<longleftrightarrow> i \<notin> oid ` set coll"
  unfolding find_one_def by (auto simp: find_None_iff)

lemma find_one_Some_iff: "(\<exists>c. find_one coll i = Some c) \<longleftrightarrow> i \<in> oid ` set coll"
  using find_one_None_iff [of coll i] by auto

lemma oid_apply_set: "oid (apply_set c cs) = oid c"
  by (simp add: apply_set_def)

lemma find_one_update_one:
  "find_one coll i = Some c \<Longrightarrow> find_one (update_one coll i cs) i = Some (apply_set c cs)"
  by (induction coll) (auto simp: find_one_def oid_apply_set)

lemma find_one_update_one_other:
  "j \<noteq> i \<Longrightarrow> find_one (update_one coll i cs) j = find_one coll j"
  by (induction coll) (auto simp: find_one_def oid_apply_set)

lemma length_update_one: "length (update_one coll i cs) = length coll"
  by (induction coll) auto

lemma delete_one_found:
  "find_one coll i = Some c \<Longrightarrow> delete_one coll i = (remove1 c coll, 1)"
proof (induction coll)
  case Nil
  then show ?case by (simp add: find_one_def)
next
  case (Cons a coll)
  show ?case
  proof (cases "oid a = i")
    case True
    with Cons.prems show ?thesis by (simp add: find_one_def)
  next
    case False
    with Cons.prems have f: "find_one coll i = Some c" by (simp add: find_one_def)
    then have "oid c = i" by (simp add: find_one_SomeD)
    with False have "a \<noteq> c" by auto
    with False Cons.IH [OF f] show ?thesis by simp
  qed
qed

lemma delete_one_missing:
  "find_one coll i = None \<Longrightarrow> delete_one coll i = (coll, 0)"
  by (induction coll) (auto simp: find_one_def split: prod.splits if_splits)

lemma find_one_remove1:
  assumes "distinct (map oid coll)" and "find_one coll i = Some c"
  shows "find_one (remove1 c coll) i = None"
proof -
  from assms(1) have dc: "distinct coll" and inj: "inj_on oid (set coll)"
    by (auto simp: distinct_map)
  from assms(2) have c: "c \<in> set coll" "oid c = i" by (simp_all add: find_one_SomeD)
  have "set (remove1 c coll) = set coll - {c}" using dc by simp
  then show ?thesis
    unfolding find_one_None_iff using inj c by (auto dest: inj_onD)
qed

lemma find_one_append:
  "find_one (xs @ ys) i = (case find_one xs i of None \<Rightarrow> find_one ys i | Some x \<Rightarrow> Some x)"
  by (induction xs) (simp_all add: find_one_def)

section \<open>Facts about the resolution of an identifier and about an update\<close>

lemma find_concept_by_id_Inr:
  "find_concept_by_id d s = (Inr c, t) \<longleftrightarrow>
     (\<exists>i. ObjectId s = Inr i \<and> find_one (concepts d) i = Some c \<and> t = [Db_find_one i])"
  by (auto simp: find_concept_by_id_def split: sum.splits option.splits)

lemma find_concept_by_id_Inl:
  "find_concept_by_id d s = (Inl e, t) \<Longrightarrow>
     (isl (ObjectId s) \<and> e = HTTPException 400 [Lit (''Invalid concept ID format: '' @ s)] \<and> t = []) \<or>
     (\<exists>i. ObjectId s = Inr i \<and> find_one (concepts d) i = None \<and>
          e = HTTPException 404 [Lit (''Concept not found with id='' @ s)] \<and> t = [Db_find_one i])"
  by (auto simp: find_concept_by_id_def split: sum.splits option.splits)

text \<open>An update of a concept that is found: the no-op path, or one embedding call
  followed by the write and the second read.\<close>

lemma update_concept_found:
  assumes "ObjectId s = Inr i" and "find_one (concepts d) i = Some c"
  shows "update_concept Embed d s u =
     (if upd_name u = None \<and> upd_usage u = None then (Inr (Some c), d, [Db_find_one i])
      else
        (let cs = \<lparr>set_name = upd_name u, set_usage = upd_usage u,
                   set_normalized_embedding =
                     Some (Embed (embed_string (update_data_dict_of u) c))\<rparr>
         in (Inr (Some (apply_set c cs)), d\<lparr>concepts := update_one (concepts d) i cs\<rparr>,
             [Db_find_one i, Embedding_call (embed_string (update_data_dict_of u) c),
              Db_update_one i cs, Db_find_one i])))"
proof -
  have f: "find_concept_by_id d s = (Inr c, [Db_find_one i])"
    using assms by (simp add: find_concept_by_id_Inr)
  have o: "oid c = i" using assms(2) by (simp add: find_one_SomeD)
  show ?thesis
    using assms(2)
    by (simp add: update_concept_def f o Let_def nonempty_def update_data_dict_of_def
        find_one_update_one)
qed

lemma update_concept_Inr:
  assumes "update_concept Embed d s u = (Inr r, d', t)"
  shows "\<exists>i c. ObjectId s = Inr i \<and> find_one (concepts d) i = Some c"
proof (cases "find_concept_by_id d s")
  case (Pair a b)
  show ?thesis
  proof (cases a)
    case (Inl e)
    with Pair assms show ?thesis by (simp add: update_concept_def)
  next
    case (Inr c)
    with Pair show ?thesis by (auto simp: find_concept_by_id_Inr)
  qed
qed

lemma update_concept_Inl:
  assumes "update_concept Embed d s u = (Inl e, d', t)"
  shows "find_concept_by_id d s = (Inl e, t) \<and> d' = d"
proof (cases "find_concept_by_id d s")
  case (Pair a b)
  show ?thesis
  proof (cases a)
    case (Inl e')
    with Pair assms show ?thesis by (simp add: update_concept_def)
  next
    case (Inr c)
    with Pair assms show ?thesis
      by (simp add: update_concept_def Let_def split: if_splits)
  qed
qed

section \<open>The claims about updates\<close>

lemma ObjectId_sample_id: "ObjectId sample_id = Inr sample_oid"
  by (simp add: ObjectId_def hex_digit_def isspace_def)

lemma find_one_sample: "find_one (concepts sample_db) sample_oid = Some sample_concept"
  by (simp add: find_one_def)

lemma update_sample_usage:
  "update_concept sample_Embed sample_db sample_id \<lparr>upd_name = None, upd_usage = Some ''baz''\<rparr> =
     (Inr (Some \<lparr>oid = sample_oid, name = ''Foo'', usage = ''baz'',
                 normalized_embedding = Some (sample_Embed ''Foo: baz'')\<rparr>),
      \<lparr>concepts = [\<lparr>oid = sample_oid, name = ''Foo'', usage = ''baz'',
                     normalized_embedding = Some (sample_Embed ''Foo: baz'')\<rparr>]\<rparr>,
      [Db_find_one sample_oid, Embedding_call ''Foo: baz'',
       Db_update_one sample_oid
         \<lparr>set_name = None, set_usage = Some ''baz'',
          set_normalized_embedding = Some (sample_Embed ''Foo: baz'')\<rparr>,
       Db_find_one sample_oid])"
  by (subst update_concept_found [OF ObjectId_sample_id find_one_sample])
    (simp add: embed_string_def update_data_dict_of_def apply_set_def)

text \<open>
  C1. A concept is stored under the identifier and the body of the update has a name or a
  usage: the update returns the record now stored under the identifier, and its
  \<open>normalized_embedding\<close> is the provider's answer for the effective name, a colon and a
  space, and the effective usage, each taken from the body when it is there and from the
  stored record otherwise.
\<close>

theorem update_concept_embedding_consistency:
  assumes "ObjectId s = Inr i" and "find_one (concepts d) i = Some c"
    and "upd_name u \<noteq> None \<or> upd_usage u \<noteq> None"
  shows "case update_concept Embed d s u of
           (Inr (Some c'), d', t) \<Rightarrow>
             find_one (concepts d') i = Some c' \<and>
             normalized_embedding c' =
               Some (Embed ((case upd_name u of Some n \<Rightarrow> n | None \<Rightarrow> name c) @ '': '' @
                            (case upd_usage u of Some v \<Rightarrow> v | None \<Rightarrow> usage c)))
         | _ \<Rightarrow> False"
  using assms(3)
  by (subst update_concept_found [OF assms(1,2)])
    (auto simp: Let_def find_one_update_one [OF assms(2)] apply_set_def embed_string_def
      update_data_dict_of_def)

text \<open>
  A worked instance at the sample concept: updating the usage to \<^verbatim>\<open>baz\<close> stores the
  embedding of \<^verbatim>\<open>Foo: baz\<close>.
\<close>

theorem update_concept_embedding_consistency_witness:
  "ObjectId sample_id = Inr sample_oid \<and>
   find_one (concepts sample_db) sample_oid = Some sample_concept \<and>
   (case update_concept sample_Embed sample_db sample_id
           \<lparr>upd_name = None, upd_usage = Some ''baz''\<rparr> of
      (Inr (Some c'), d', t) \<Rightarrow>
        find_one (concepts d') sample_oid = Some c' \<and>
        normalized_embedding c' = Some (sample_Embed ''Foo: baz'')
    | _ \<Rightarrow> False)"
  using update_concept_embedding_consistency
    [OF ObjectId_sample_id find_one_sample,
     where u = "\<lparr>upd_name = None, upd_usage = Some ''baz''\<rparr>" and Embed = sample_Embed]
  by (simp add: ObjectId_sample_id find_one_def update_sample_usage)


text \<open>
  C2, as amended: an update of a stored concept whose body has a name or a usage leaves the
  record with the embedding of its resulting name and usage; an update whose body has
  neither returns the stored record and changes nothing. So an update never changes name or
  usage without the embedding, and never stores an embedding other than the provider's.
\<close>

theorem update_concept_refreshes_embedding:
  assumes "ObjectId s = Inr i" and "find_one (concepts d) i = Some c"
  shows "case update_concept Embed d s u of
           (Inr (Some c'), d', t) \<Rightarrow>
             find_one (concepts d') i = Some c' \<and>
             (if upd_name u = None \<and> upd_usage u = None then c' = c \<and> d' = d
              else normalized_embedding c' = Some (Embed (name c' @ '': '' @ usage c')))
         | _ \<Rightarrow> False"
  by (subst update_concept_found [OF assms])
    (auto simp: Let_def assms(2) find_one_update_one [OF assms(2)] apply_set_def
      embed_string_def update_data_dict_of_def)

text \<open>
  A worked instance at the sample concept: the stored embedding is the provider's answer for
  the name and usage the record then has.
\<close>

theorem update_concept_refreshes_embedding_witness:
  "ObjectId sample_id = Inr sample_oid \<and>
   find_one (concepts sample_db) sample_oid = Some sample_concept \<and>
   (case update_concept sample_Embed sample_db sample_id
           \<lparr>upd_name = None, upd_usage = Some ''baz''\<rparr> of
      (Inr (Some c'), d', t) \<Rightarrow>
        find_one (concepts d') sample_oid = Some c' \<and>
        normalized_embedding c' = Some (sample_Embed (name c' @ '': '' @ usage c'))
    | _ \<Rightarrow> False)"
  using update_concept_refreshes_embedding
    [OF ObjectId_sample_id find_one_sample,
     where u = "\<lparr>upd_name = None, upd_usage = Some ''baz''\<rparr>" and Embed = sample_Embed]
  by (simp add: ObjectId_sample_id find_one_def update_sample_usage)

text \<open>
  C3. A concept is stored under the identifier and the body of the update is not empty:
  the record returned is the one now stored, it keeps its identifier, a name or usage
  missing from the body keeps its stored value, one in the body is taken from it, the
  records under other identifiers are found as before, and no record is added or lost.
\<close>

theorem update_concept_preserves_untouched_fields:
  assumes "ObjectId s = Inr i" and "find_one (concepts d) i = Some c"
    and "upd_name u \<noteq> None \<or> upd_usage u \<noteq> None"
  shows "case update_concept Embed d s u of
           (Inr (Some c'), d', t) \<Rightarrow>
             find_one (concepts d') i = Some c' \<and>
             oid c' = oid c \<and>
             (upd_name u = None \<longrightarrow> name c' = name c) \<and>
             (upd_usage u = None \<longrightarrow> usage c' = usage c) \<and>
             (\<forall>n. upd_name u = Some n \<longrightarrow> name c' = n) \<and>
             (\<forall>v. upd_usage u = Some v \<longrightarrow> usage c' = v) \<and>
             (\<forall>j. j \<noteq> i \<longrightarrow> find_one (concepts d') j = find_one (concepts d) j) \<and>
             length (concepts d') = length (concepts d)
         | _ \<Rightarrow> False"
  using assms(3)
  by (subst update_concept_found [OF assms(1,2)])
    (auto simp: Let_def find_one_update_one [OF assms(2)] find_one_update_one_other
      length_update_one apply_set_def)

text \<open>
  A worked instance at the sample concept: only the usage is in the body, and the name
  stays \<^verbatim>\<open>Foo\<close>.
\<close>

theorem update_concept_preserves_untouched_fields_witness:
  "ObjectId sample_id = Inr sample_oid \<and>
   find_one (concepts sample_db) sample_oid = Some sample_concept \<and>
   (case update_concept sample_Embed sample_db sample_id
           \<lparr>upd_name = None, upd_usage = Some ''baz''\<rparr> of
      (Inr (Some c'), d', t) \<Rightarrow>
        find_one (concepts d') sample_oid = Some c' \<and>
        oid c' = sample_oid \<and> name c' = ''Foo'' \<and> usage c' = ''baz'' \<and>
        length (concepts d') = 1
    | _ \<Rightarrow> False)"
  using update_concept_preserves_untouched_fields
    [OF ObjectId_sample_id find_one_sample,
     where u = "\<lparr>upd_name = None, upd_usage = Some ''baz''\<rparr>" and Embed = sample_Embed]
  by (simp add: ObjectId_sample_id find_one_def update_sample_usage)

text \<open>
  C4. A concept is stored under the identifier and the body of the update has neither name
  nor usage: the changeset is empty, the stored record is returned, the database is the
  same, and the only call made is the read that found the record: no write and no call of
  the embedding provider.
\<close>

theorem update_concept_noop:
  assumes "ObjectId s = Inr i" and "find_one (concepts d) i = Some c"
    and "upd_name u = None" and "upd_usage u = None"
  shows "\<not> nonempty (update_data_dict_of u) \<and>
         update_concept Embed d s u = (Inr (Some c), d, [Db_find_one i]) \<and>
         \<not> list_ex is_write (snd (snd (update_concept Embed d s u))) \<and>
         \<not> list_ex is_embedding (snd (snd (update_concept Embed d s u)))"
proof -
  have "update_concept Embed d s u = (Inr (Some c), d, [Db_find_one i])"
    using assms(3,4) by (simp add: update_concept_found [OF assms(1,2)])
  moreover have "\<not> nonempty (update_data_dict_of u)"
    using assms(3,4) by (simp add: nonempty_def update_data_dict_of_def)
  ultimately show ?thesis by simp
qed

text \<open>
  A worked instance at the sample concept: an empty body returns it as it is.
\<close>

theorem update_concept_noop_witness:
  "ObjectId sample_id = Inr sample_oid \<and>
   find_one (concepts sample_db) sample_oid = Some sample_concept \<and>
   update_concept sample_Embed sample_db sample_id \<lparr>upd_name = None, upd_usage = None\<rparr> =
     (Inr (Some sample_concept), sample_db, [Db_find_one sample_oid])"
  using update_concept_noop
    [OF ObjectId_sample_id find_one_sample,
     where u = "\<lparr>upd_name = None, upd_usage = None\<rparr>" and Embed = sample_Embed]
  by (simp add: ObjectId_sample_id find_one_def)

text \<open>
  C10. An update that fails leaves the database as it was and has called neither the
  embedding provider nor a write; it failed with 400 on a malformed identifier before any
  call, or with 404 after the one read that found no record.
\<close>

theorem update_concept_failure_no_effect:
  assumes "update_concept Embed d s u = (Inl e, d', t)"
  shows "d' = d \<and> \<not> list_ex is_embedding t \<and> \<not> list_ex is_write t \<and>
         (isl (ObjectId s) \<and> response_status e = 400 \<and> t = [] \<or>
          (\<exists>i. ObjectId s = Inr i \<and> find_one (concepts d) i = None \<and>
               response_status e = 404 \<and> t = [Db_find_one i]))"
proof -
  from update_concept_Inl [OF assms]
  have f: "find_concept_by_id d s = (Inl e, t)" and d: "d' = d" by simp_all
  from find_concept_by_id_Inl [OF f] d show ?thesis by auto
qed

lemma update_malformed_sample:
  "update_concept sample_Embed sample_db ''not-an-id'' \<lparr>upd_name = Some ''X'', upd_usage = None\<rparr> =
     (Inl (HTTPException 400 [Lit ''Invalid concept ID format: not-an-id'']), sample_db, [])"
  by (simp add: update_concept_def find_concept_by_id_def ObjectId_def)

text \<open>
  A worked instance at a malformed identifier.
\<close>

theorem update_concept_failure_no_effect_witness:
  "update_concept sample_Embed sample_db ''not-an-id'' \<lparr>upd_name = Some ''X'', upd_usage = None\<rparr> =
     (Inl (HTTPException 400 [Lit ''Invalid concept ID format: not-an-id'']), sample_db, []) \<and>
   isl (ObjectId ''not-an-id'') \<and>
   response_status (HTTPException 400 [Lit ''Invalid concept ID format: not-an-id'']) = 400"
  using update_concept_failure_no_effect [OF update_malformed_sample] update_malformed_sample
  by (simp add: ObjectId_def)

section \<open>The claims about fetching, listing, creating and deleting\<close>

text \<open>
  C5. Fetching by identifier fails with 400 exactly when the identifier is malformed, with
  404 exactly when it is well formed and no stored record has it, and returns a stored
  record with that identifier otherwise. An update fails with 400 and with 404 in exactly
  the same cases, and fails at all only when the fetch does.
\<close>

theorem find_by_id_failure_modes:
  "((\<exists>m. fst (get_concept_by_id d s) = Inl (HTTPException 400 m)) \<longleftrightarrow> isl (ObjectId s)) \<and>
   ((\<exists>m. fst (get_concept_by_id d s) = Inl (HTTPException 404 m)) \<longleftrightarrow>
      (\<exists>i. ObjectId s = Inr i \<and> i \<notin> oid ` set (concepts d))) \<and>
   ((\<exists>c. fst (get_concept_by_id d s) = Inr c) \<longleftrightarrow>
      (\<exists>i. ObjectId s = Inr i \<and> i \<in> oid ` set (concepts d))) \<and>
   (\<forall>c. fst (get_concept_by_id d s) = Inr c \<longrightarrow>
      c \<in> set (concepts d) \<and> ObjectId s = Inr (oid c)) \<and>
   ((\<exists>m. fst (update_concept Embed d s u) = Inl (HTTPException 400 m)) \<longleftrightarrow>
      isl (ObjectId s)) \<and>
   ((\<exists>m. fst (update_concept Embed d s u) = Inl (HTTPException 404 m)) \<longleftrightarrow>
      (\<exists>i. ObjectId s = Inr i \<and> i \<notin> oid ` set (concepts d))) \<and>
   ((\<exists>e. fst (update_concept Embed d s u) = Inl e) \<longleftrightarrow>
      (\<exists>e. fst (get_concept_by_id d s) = Inl e))"
proof (cases "ObjectId s")
  case (Inl e)
  then show ?thesis
    by (simp add: get_concept_by_id_def update_concept_def find_concept_by_id_def)
next
  case (Inr i)
  show ?thesis
  proof (cases "find_one (concepts d) i")
    case None
    then have "i \<notin> oid ` set (concepts d)" by (simp add: find_one_None_iff)
    with None Inr show ?thesis
      by (simp add: get_concept_by_id_def update_concept_def find_concept_by_id_def)
  next
    case (Some c)
    then have m: "c \<in> set (concepts d)" "oid c = i" by (simp_all add: find_one_SomeD)
    then have "i \<in> oid ` set (concepts d)" by auto
    with Some Inr m show ?thesis
      by (simp add: get_concept_by_id_def update_concept_found [OF Inr Some] Let_def)
  qed
qed

text \<open>
  C9. The handler of the fetch route and the helper of the update resolve an identifier
  alike: on success both return the same record, on failure both carry the same status
  code, 400 for a malformed identifier and 404 otherwise, and both make the same calls.
\<close>

theorem get_concept_by_id_agrees_with_find_concept_by_id:
  "(case (fst (get_concept_by_id d s), fst (find_concept_by_id d s)) of
      (Inr c, Inr c') \<Rightarrow> c = c'
    | (Inl e, Inl e') \<Rightarrow>
        response_status e = response_status e' \<and>
        response_status e = (if isl (ObjectId s) then 400 else 404)
    | _ \<Rightarrow> False) \<and>
   snd (get_concept_by_id d s) = snd (find_concept_by_id d s)"
  by (simp add: get_concept_by_id_def find_concept_by_id_def split: sum.splits option.splits)

text \<open>
  C7. The listing returns the first 1000 stored records in the collection's order, as
  models: its length is the smaller of 1000 and the number of records, so at most 1000,
  and exactly 1000 when 1500 are stored.
\<close>

theorem get_concepts_capped:
  "fst (get_concepts d) = map ConceptModel_of (take 1000 (concepts d)) \<and>
   length (fst (get_concepts d)) = min 1000 (length (concepts d)) \<and>
   length (fst (get_concepts d)) \<le> 1000 \<and>
   (length (concepts d) = 1500 \<longrightarrow> length (fst (get_concepts d)) = 1000) \<and>
   snd (get_concepts d) = [Db_find]"
  by (simp add: get_concepts_def)

text \<open>
  C8. When the store's new identifier is not in use, a creation returns and appends the
  record made of that identifier and of the name, usage and embedding of the body as they
  were supplied (no embedding when none was); the identifier of the body has no influence
  on the outcome; and the embedding provider is not called.
\<close>

theorem add_concept_stores_supplied_fields:
  assumes "inserted_id \<notin> oid ` set (concepts d)"
  shows "add_concept d inserted_id concept =
           (Inr (Some \<lparr>oid = inserted_id, name = cm_name concept, usage = cm_usage concept,
                       normalized_embedding = cm_normalized_embedding concept\<rparr>),
            d\<lparr>concepts := concepts d @
                 [\<lparr>oid = inserted_id, name = cm_name concept, usage = cm_usage concept,
                   normalized_embedding = cm_normalized_embedding concept\<rparr>]\<rparr>,
            [Db_insert_one inserted_id, Db_find_one inserted_id]) \<and>
         add_concept d inserted_id (concept\<lparr>cm_id := x\<rparr>) = add_concept d inserted_id concept \<and>
         \<not> list_ex is_embedding (snd (snd (add_concept d inserted_id concept)))"
proof -
  from assms have n: "find_one (concepts d) inserted_id = None"
    by (simp add: find_one_None_iff)
  have f: "find_one (concepts d @
      [\<lparr>oid = inserted_id, name = cm_name concept, usage = cm_usage concept,
        normalized_embedding = cm_normalized_embedding concept\<rparr>]) inserted_id =
      Some \<lparr>oid = inserted_id, name = cm_name concept, usage = cm_usage concept,
            normalized_embedding = cm_normalized_embedding concept\<rparr>"
    by (simp add: find_one_append n) (simp add: find_one_def)
  show ?thesis
    using n f by (simp add: add_concept_def insert_one_def)
qed

text \<open>
  Deletion by a well-formed identifier: it removes the first record with that identifier
  and answers 200 when there is one, and answers 404 and leaves the collection as it was
  when there is none; where identifiers are unique in the collection, a second deletion of
  the same identifier answers 404.
\<close>

theorem delete_concept_well_formed_id:
  assumes "ObjectId s = Inr i"
  shows "(case find_one (concepts d) i of
            Some c \<Rightarrow>
              delete_concept d s =
                (Inr (JSONResponse 200 [Lit ''Concept with id='', Repr s, Lit '' deleted.'']),
                 d\<lparr>concepts := remove1 c (concepts d)\<rparr>, [Db_delete_one i]) \<and>
              (distinct (map oid (concepts d)) \<longrightarrow>
                 delete_concept (d\<lparr>concepts := remove1 c (concepts d)\<rparr>) s =
                   (Inl (HTTPException 404
                           [Lit ''Concept with id='', Repr s, Lit '' not found.'']),
                    d\<lparr>concepts := remove1 c (concepts d)\<rparr>, [Db_delete_one i]))
          | None \<Rightarrow>
              delete_concept d s =
                (Inl (HTTPException 404 [Lit ''Concept with id='', Repr s, Lit '' not found.'']),
                 d, [Db_delete_one i]))"
proof (cases "find_one (concepts d) i")
  case None
  then show ?thesis
    by (simp add: delete_concept_def assms delete_one_missing)
next
  case (Some c)
  have 1: "delete_concept d s =
      (Inr (JSONResponse 200 [Lit ''Concept with id='', Repr s, Lit '' deleted.'']),
       d\<lparr>concepts := remove1 c (concepts d)\<rparr>, [Db_delete_one i])"
    by (simp add: delete_concept_def assms delete_one_found [OF Some])
  have 2: "delete_concept (d\<lparr>concepts := remove1 c (concepts d)\<rparr>) s =
      (Inl (HTTPException 404 [Lit ''Concept with id='', Repr s, Lit '' not found.'']),
       d\<lparr>concepts := remove1 c (concepts d)\<rparr>, [Db_delete_one i])"
    if "distinct (map oid (concepts d))"
    using find_one_remove1 [OF that Some]
    by (simp add: delete_concept_def assms delete_one_missing)
  from 1 2 Some show ?thesis by simp
qed

text \<open>
  C6, at a malformed identifier. The claim has a deletion answer 404 there, as for any
  identifier that matches no record. The handler calls \<^verbatim>\<open>ObjectId(id)\<close> outside any
  \<^verbatim>\<open>try\<close>, so the library's \<^verbatim>\<open>InvalidId\<close> leaves it uncaught before the
  collection is asked, and the response is a 500; the helper of the update and the fetch
  route catch the same exception and answer 400.
\<close>

theorem delete_concept_malformed_id_raises_InvalidId:
  "delete_concept sample_db ''not-an-id'' = (Inl (InvalidId ''not-an-id''), sample_db, []) \<and>
   fst (delete_concept sample_db ''not-an-id'') \<noteq>
     Inl (HTTPException 404 [Lit ''Concept with id='', Repr ''not-an-id'', Lit '' not found.'']) \<and>
   response_status (InvalidId ''not-an-id'') = 500 \<and>
   fst (find_concept_by_id sample_db ''not-an-id'') =
     Inl (HTTPException 400 [Lit ''Invalid concept ID format: not-an-id'']) \<and>
   fst (get_concept_by_id sample_db ''not-an-id'') =
     Inl (HTTPException 400 [Lit ''Invalid user ID format: not-an-id''])"
  by (simp add: delete_concept_def find_concept_by_id_def get_concept_by_id_def ObjectId_def)

text \<open>
  C2 as stated fails for creation: a body without embedding is stored with name and usage
  and no embedding, and a body with an embedding is stored with that very embedding,
  which need not be the provider's answer for the name and usage.
\<close>

theorem add_concept_embedding_counterexample:
  "fst (add_concept \<lparr>concepts = []\<rparr> sample_oid
          \<lparr>cm_id = None, cm_name = ''Foo'', cm_usage = ''bar'',
           cm_normalized_embedding = None\<rparr>) =
     Inr (Some \<lparr>oid = sample_oid, name = ''Foo'', usage = ''bar'',
                normalized_embedding = None\<rparr>) \<and>
   fst (add_concept \<lparr>concepts = []\<rparr> sample_oid
          \<lparr>cm_id = None, cm_name = ''Foo'', cm_usage = ''bar'',
           cm_normalized_embedding = Some [3 / 5, 4 / 5]\<rparr>) =
     Inr (Some \<lparr>oid = sample_oid, name = ''Foo'', usage = ''bar'',
                normalized_embedding = Some [3 / 5, 4 / 5]\<rparr>) \<and>
   sample_Embed ''Foo: bar'' \<noteq> [3 / 5, 4 / 5]"
  by (simp add: add_concept_def insert_one_def find_one_def)


text \<open>
  Worked instances: a malformed identifier gives 400 from both, the sample identifier finds
  the sample concept, and the same identifier gives 404 on an empty collection.
\<close>

theorem find_by_id_failure_modes_witness:
  "isl (ObjectId ''not-an-id'') \<and>
   (\<exists>m. fst (get_concept_by_id sample_db ''not-an-id'') = Inl (HTTPException 400 m)) \<and>
   (\<exists>m. fst (update_concept sample_Embed sample_db ''not-an-id''
                \<lparr>upd_name = Some ''X'', upd_usage = None\<rparr>) = Inl (HTTPException 400 m)) \<and>
   (\<exists>i. ObjectId sample_id = Inr i \<and> i \<in> oid ` set (concepts sample_db)) \<and>
   (\<exists>c. fst (get_concept_by_id sample_db sample_id) = Inr c) \<and>
   (\<exists>i. ObjectId sample_id = Inr i \<and> i \<notin> oid ` set (concepts \<lparr>concepts = []\<rparr>)) \<and>
   (\<exists>m. fst (get_concept_by_id \<lparr>concepts = []\<rparr> sample_id) = Inl (HTTPException 404 m))"
proof -
  have a: "isl (ObjectId ''not-an-id'')" by (simp add: ObjectId_def)
  have b: "\<exists>i. ObjectId sample_id = Inr i \<and> i \<in> oid ` set (concepts sample_db)"
    by (simp add: ObjectId_sample_id)
  have c: "\<exists>i. ObjectId sample_id = Inr i \<and> i \<notin> oid ` set (concepts \<lparr>concepts = []\<rparr>)"
    by (simp add: ObjectId_sample_id)
  note m = find_by_id_failure_modes
    [where d = sample_db and s = "''not-an-id''" and Embed = sample_Embed
       and u = "\<lparr>upd_name = Some ''X'', upd_usage = None\<rparr>"]
  note f = find_by_id_failure_modes
    [where d = sample_db and s = sample_id and Embed = sample_Embed
       and u = "\<lparr>upd_name = Some ''X'', upd_usage = None\<rparr>"]
  note n = find_by_id_failure_modes
    [where d = "\<lparr>concepts = []\<rparr>" and s = sample_id and Embed = sample_Embed
       and u = "\<lparr>upd_name = Some ''X'', upd_usage = None\<rparr>"]
  from a m have 1: "\<exists>m. fst (get_concept_by_id sample_db ''not-an-id'') = Inl (HTTPException 400 m)"
    by (elim conjE) (rule iffD2)
  from a m have 2: "\<exists>m. fst (update_concept sample_Embed sample_db ''not-an-id''
                \<lparr>upd_name = Some ''X'', upd_usage = None\<rparr>) = Inl (HTTPException 400 m)"
    by (elim conjE) (rule iffD2)
  from b f have 3: "\<exists>c. fst (get_concept_by_id sample_db sample_id) = Inr c"
    by (elim conjE) (rule iffD2)
  from c n have 4: "\<exists>m. fst (get_concept_by_id \<lparr>concepts = []\<rparr> sample_id) = Inl (HTTPException 404 m)"
    by (elim conjE) (rule iffD2)
  from a 1 2 b 3 c 4 show ?thesis by (intro conjI)
qed

text \<open>The two are not the same function: their messages differ.\<close>

lemma get_concept_by_id_detail_differs:
  "get_concept_by_id sample_db ''not-an-id'' \<noteq> find_concept_by_id sample_db ''not-an-id''"
  by (simp add: get_concept_by_id_def find_concept_by_id_def ObjectId_def)

text \<open>
  Worked instances: the sample identifier gives the sample concept from both; a malformed
  one gives 400 from both, with the two different messages.
\<close>

theorem get_concept_by_id_agrees_with_find_concept_by_id_witness:
  "fst (get_concept_by_id sample_db sample_id) = Inr sample_concept \<and>
   fst (find_concept_by_id sample_db sample_id) = Inr sample_concept \<and>
   fst (get_concept_by_id sample_db ''not-an-id'') =
     Inl (HTTPException 400 [Lit ''Invalid user ID format: not-an-id'']) \<and>
   fst (find_concept_by_id sample_db ''not-an-id'') =
     Inl (HTTPException 400 [Lit ''Invalid concept ID format: not-an-id'']) \<and>
   (case (fst (get_concept_by_id sample_db ''not-an-id''),
          fst (find_concept_by_id sample_db ''not-an-id'')) of
      (Inl e, Inl e') \<Rightarrow> response_status e = response_status e' \<and> response_status e = 400
    | _ \<Rightarrow> False)"
  using get_concept_by_id_agrees_with_find_concept_by_id [where d = sample_db and s = sample_id]
    get_concept_by_id_agrees_with_find_concept_by_id [where d = sample_db and s = "''not-an-id''"]
  by (simp add: get_concept_by_id_def find_concept_by_id_def ObjectId_sample_id find_one_def)
    (simp add: ObjectId_def)

text \<open>
  A worked instance: a collection of 1500 records, of which 1000 are listed.
\<close>

theorem get_concepts_capped_witness:
  "length (concepts \<lparr>concepts = map (\<lambda>n. sample_concept\<lparr>oid := [0, 0, 0, 0, 0, 0, 0, 0, 0, 0, n div 256, n mod 256]\<rparr>) [0..<1500]\<rparr>) = 1500 \<and>
   length (fst (get_concepts \<lparr>concepts = map (\<lambda>n. sample_concept\<lparr>oid := [0, 0, 0, 0, 0, 0, 0, 0, 0, 0, n div 256, n mod 256]\<rparr>) [0..<1500]\<rparr>)) = 1000"
  using get_concepts_capped
    [where d = "\<lparr>concepts = map (\<lambda>n. sample_concept\<lparr>oid := [0, 0, 0, 0, 0, 0, 0, 0, 0, 0, n div 256, n mod 256]\<rparr>) [0..<1500]\<rparr>"]
  by simp

text \<open>
  A worked instance: the body carries the identifier of the sample concept and no
  embedding; the record stored has the store's identifier and no embedding.
\<close>

theorem add_concept_stores_supplied_fields_witness:
  "[102, 161, 178, 195, 212, 229, 246, 7, 24, 41, 58, 76] \<notin> oid ` set (concepts sample_db) \<and>
   add_concept sample_db [102, 161, 178, 195, 212, 229, 246, 7, 24, 41, 58, 76]
       \<lparr>cm_id = Some sample_oid, cm_name = ''Baz'', cm_usage = ''qux'',
        cm_normalized_embedding = None\<rparr> =
     (Inr (Some \<lparr>oid = [102, 161, 178, 195, 212, 229, 246, 7, 24, 41, 58, 76],
                 name = ''Baz'', usage = ''qux'', normalized_embedding = None\<rparr>),
      \<lparr>concepts =
         [sample_concept,
          \<lparr>oid = [102, 161, 178, 195, 212, 229, 246, 7, 24, 41, 58, 76],
           name = ''Baz'', usage = ''qux'', normalized_embedding = None\<rparr>]\<rparr>,
      [Db_insert_one [102, 161, 178, 195, 212, 229, 246, 7, 24, 41, 58, 76],
       Db_find_one [102, 161, 178, 195, 212, 229, 246, 7, 24, 41, 58, 76]])"
  using add_concept_stores_supplied_fields
    [where d = sample_db and inserted_id = "[102, 161, 178, 195, 212, 229, 246, 7, 24, 41, 58, 76]"
       and concept = "\<lparr>cm_id = Some sample_oid, cm_name = ''Baz'', cm_usage = ''qux'',
                         cm_normalized_embedding = None\<rparr>"]
  by simp

text \<open>
  A worked instance: deleting the sample concept twice answers 200 and then 404.
\<close>

theorem delete_concept_well_formed_id_witness:
  "ObjectId sample_id = Inr sample_oid \<and>
   distinct (map oid (concepts sample_db)) \<and>
   delete_concept sample_db sample_id =
     (Inr (JSONResponse 200 [Lit ''Concept with id='', Repr sample_id, Lit '' deleted.'']),
      \<lparr>concepts = []\<rparr>, [Db_delete_one sample_oid]) \<and>
   delete_concept \<lparr>concepts = []\<rparr> sample_id =
     (Inl (HTTPException 404 [Lit ''Concept with id='', Repr sample_id, Lit '' not found.'']),
      \<lparr>concepts = []\<rparr>, [Db_delete_one sample_oid])"
  using delete_concept_well_formed_id [OF ObjectId_sample_id, where d = sample_db]
  by (simp add: ObjectId_sample_id find_one_def)

end
